theory Spec2Isabelle
  imports Main
begin

section \<open>The hyperagent state machine (src/AI/hyperagent.py)\<close>

text \<open>
  The module declares a conversation model (\<open>MultiGenieModel\<close>) and a state machine
  (\<open>MultiGenieMachine\<close>) over it: eight states, three triggers, one guard
  (\<open>bots_found\<close>) and the exit actions that read the latest actor input into the model.
  The embedding below follows the source function by function. Mutation of the model is
  explicit state passing, and every exception the Python can raise is a value.
\<close>

subsection \<open>Python values and exceptions\<close>

text \<open>
  The exceptions that can leave the functions of the module. \<open>InvalidTransition\<close> is the
  rejection of a trigger by the state machine library (its \<open>TransitionNotAllowed\<close>); the
  others are the Python built-ins. \<open>JSONDecodeError\<close> is caught at every call of
  \<open>json.loads\<close> in the module and is therefore the \<open>None\<close> of the decoder below.
\<close>

datatype error = InvalidTransition | TypeError | KeyError | IndexError | AttributeError

text \<open>
  A Python float as the decoder produces it: a finite binary float (mantissa and
  exponent), an infinity with its sign, or NaN. Only its truth value is ever read.
\<close>

datatype pyfloat = Finite int int | Infinity bool | NaN

text \<open>
  What \<open>json.loads\<close> returns: \<open>None\<close>, a bool, an int, a float, a str, a list or a dict.
  A dict is the list of its items in insertion order (the decoder yields every key
  once). A character of a Python string is one \<open>char\<close> here; the module only compares
  characters and tests strings for emptiness and containment.
\<close>

datatype json =
    JNull
  | JBool bool
  | JInt int
  | JFloat pyfloat
  | JString string
  | JArray "json list"
  | JObject "(string \<times> json) list"

text \<open>
  The decoder \<open>json.loads\<close> belongs to the Python standard library. It is a parameter
  of every function that calls it: a partial map from texts to values, undefined where
  the library raises \<open>JSONDecodeError\<close>.
\<close>

type_synonym decoder = "string \<rightharpoonup> json"

text \<open>Truth value testing, as \<open>if v\<close> and \<open>v and w\<close> apply it.\<close>

fun truthy :: "json \<Rightarrow> bool" where
  "truthy JNull = False"
| "truthy (JBool b) = b"
| "truthy (JInt i) = (i \<noteq> 0)"
| "truthy (JFloat (Finite m e)) = (m \<noteq> 0)"
| "truthy (JFloat (Infinity s)) = True"
| "truthy (JFloat NaN) = True"
| "truthy (JString s) = (s \<noteq> [])"
| "truthy (JArray xs) = (xs \<noteq> [])"
| "truthy (JObject kvs) = (kvs \<noteq> [])"

text \<open>
  \<open>v[k]\<close> for a string key \<open>k\<close>: a dict looks the key up and raises \<open>KeyError\<close> when it
  is missing; a str and a list take integer indices only, and nothing else can be
  subscripted: all of these raise \<open>TypeError\<close>.
\<close>

fun getitem :: "json \<Rightarrow> string \<Rightarrow> error + json" where
  "getitem (JObject kvs) k = (case map_of kvs k of None \<Rightarrow> Inl KeyError | Some v \<Rightarrow> Inr v)"
| "getitem JNull k = Inl TypeError"
| "getitem (JBool b) k = Inl TypeError"
| "getitem (JInt i) k = Inl TypeError"
| "getitem (JFloat f) k = Inl TypeError"
| "getitem (JString s) k = Inl TypeError"
| "getitem (JArray xs) k = Inl TypeError"

text \<open>
  \<open>v[0]\<close>: the first element of a list, the first character of a str (a str of
  length one), \<open>IndexError\<close> when they are empty; a dict has string keys only, so \<open>0\<close>
  is a missing key.
\<close>

fun getitem0 :: "json \<Rightarrow> error + json" where
  "getitem0 (JArray (x # xs)) = Inr x"
| "getitem0 (JString (c # cs)) = Inr (JString [c])"
| "getitem0 (JArray []) = Inl IndexError"
| "getitem0 (JString []) = Inl IndexError"
| "getitem0 (JObject kvs) = Inl KeyError"
| "getitem0 JNull = Inl TypeError"
| "getitem0 (JBool b) = Inl TypeError"
| "getitem0 (JInt i) = Inl TypeError"
| "getitem0 (JFloat f) = Inl TypeError"

text \<open>\<open>len(v)\<close>: defined on str, list and dict.\<close>

fun len :: "json \<Rightarrow> error + nat" where
  "len (JArray xs) = Inr (length xs)"
| "len (JString s) = Inr (length s)"
| "len (JObject kvs) = Inr (length kvs)"
| "len JNull = Inl TypeError"
| "len (JBool b) = Inl TypeError"
| "len (JInt i) = Inl TypeError"
| "len (JFloat f) = Inl TypeError"

text \<open>\<open>s.startswith(k)\<close> and the substring test \<open>k in s\<close> of two strings.\<close>

fun startswith :: "string \<Rightarrow> string \<Rightarrow> bool" where
  "startswith s [] = True"
| "startswith [] (k # ks) = False"
| "startswith (c # cs) (k # ks) = (c = k \<and> startswith cs ks)"

fun str_contains :: "string \<Rightarrow> string \<Rightarrow> bool" where
  "str_contains [] k = (k = [])"
| "str_contains (c # cs) k = (startswith (c # cs) k \<or> str_contains cs k)"

text \<open>
  \<open>k in v\<close> for a string \<open>k\<close>: key membership in a dict, element membership in a list,
  the substring test in a str, \<open>TypeError\<close> for a value that is not iterable.
\<close>

fun contains :: "string \<Rightarrow> json \<Rightarrow> error + bool" where
  "contains k (JObject kvs) = Inr (map_of kvs k \<noteq> None)"
| "contains k (JArray xs) = Inr (List.member xs (JString k))"
| "contains k (JString s) = Inr (str_contains s k)"
| "contains k JNull = Inl TypeError"
| "contains k (JBool b) = Inl TypeError"
| "contains k (JInt i) = Inl TypeError"
| "contains k (JFloat f) = Inl TypeError"

text \<open>\<open>v.items()\<close>: only a dict has the method.\<close>

fun items :: "json \<Rightarrow> error + (string \<times> json) list" where
  "items (JObject kvs) = Inr kvs"
| "items JNull = Inl AttributeError"
| "items (JBool b) = Inl AttributeError"
| "items (JInt i) = Inl AttributeError"
| "items (JFloat f) = Inl AttributeError"
| "items (JString s) = Inl AttributeError"
| "items (JArray xs) = Inl AttributeError"

text \<open>
  \<open>for n in v\<close>: the elements of a list, the keys of a dict, the characters of a str
  (each a str of length one); the other values are not iterable.
\<close>

fun iterate :: "json \<Rightarrow> error + json list" where
  "iterate (JArray xs) = Inr xs"
| "iterate (JObject kvs) = Inr (map (\<lambda>kv. JString (fst kv)) kvs)"
| "iterate (JString s) = Inr (map (\<lambda>c. JString [c]) s)"
| "iterate JNull = Inl TypeError"
| "iterate (JBool b) = Inl TypeError"
| "iterate (JInt i) = Inl TypeError"
| "iterate (JFloat f) = Inl TypeError"

text \<open>
  \<open>s.split(sep)\<close> for a separator of one character: the pieces between the separators,
  in order; the empty string gives one empty piece.
\<close>

fun str_split :: "string \<Rightarrow> char \<Rightarrow> string list" where
  "str_split [] sep = [[]]"
| "str_split (c # cs) sep =
     (if c = sep then [] # str_split cs sep
      else (case str_split cs sep of
              [] \<Rightarrow> [[c]]
            | piece # pieces \<Rightarrow> (c # piece) # pieces))"

text \<open>\<open>s.replace(old, new)\<close> for \<open>old\<close> of one character.\<close>

fun str_replace :: "string \<Rightarrow> char \<Rightarrow> string \<Rightarrow> string" where
  "str_replace [] old new = []"
| "str_replace (c # cs) old new =
     (if c = old then new @ str_replace cs old new else c # str_replace cs old new)"

subsection \<open>The conversation model\<close>

text \<open>
  One entry of \<open>rephrased_questions\<close>: the dict with the keys \<open>name\<close>, \<open>template\<close>,
  \<open>question\<close> and \<open>reason\<close> that \<open>on_exit_ai_decides_path\<close> builds. The last two hold the
  decoded values as they come.
\<close>

record rephrased =
  name :: string
  template :: string
  question :: json
  reason :: json

text \<open>
  \<open>MultiGenieModel\<close>: the fields of the class and \<open>actor_input\<close>, which it inherits
  from \<open>GenieModel\<close>. An assignment stores the value it is given, so \<open>answer\<close> and
  \<open>follow_up\<close> hold decoded values and a news item is a dict of decoded values.
\<close>

record MultiGenieModel =
  actor_input :: string
  original_question :: string
  bots :: "string \<rightharpoonup> string"
  rephrased_questions :: "rephrased list"
  answer :: json
  follow_up :: json
  news_queries :: "string list"
  news :: "(string \<times> json) list list"

text \<open>The model a conversation starts with: the defaults of the field declarations.\<close>

definition default_model :: MultiGenieModel where
  "default_model =
     \<lparr> actor_input = [],
       original_question = [],
       bots = [''Task Dictionary'' \<mapsto> ''task_dictionary/task_bot.jinja2''],
       rephrased_questions = [],
       answer = JString [],
       follow_up = JString [],
       news_queries = [],
       news = [] \<rparr>"

text \<open>
  How a method that mutates the model ends: it returns (\<open>Done\<close>) or an exception leaves
  it (\<open>Raised\<close>); either way the model is what the assignments made so far left.
\<close>

datatype outcome = Done MultiGenieModel | Raised error MultiGenieModel

subsection \<open>Exit actions\<close>

definition capture_original_question :: "MultiGenieModel \<Rightarrow> outcome" where
  "capture_original_question m = Done (m\<lparr>original_question := actor_input m\<rparr>)"

definition capture_answer :: "decoder \<Rightarrow> MultiGenieModel \<Rightarrow> outcome" where
  "capture_answer loads m =
     (case loads (actor_input m) of
        None \<Rightarrow> Done m
      | Some answer_dict \<Rightarrow>
          (case getitem answer_dict ''answer'' of
             Inl e \<Rightarrow> Raised e m
           | Inr a \<Rightarrow>
               (case getitem answer_dict ''follow_up'' of
                  Inl e \<Rightarrow> Raised e (m\<lparr>answer := a\<rparr>)
                | Inr f \<Rightarrow> Done (m\<lparr>answer := a, follow_up := f\<rparr>))))"

definition capture_news_queries :: "MultiGenieModel \<Rightarrow> outcome" where
  "capture_news_queries m =
     Done (m\<lparr>news_queries :=
               map (\<lambda>q. str_replace q (CHR 0x22) []) (str_split (actor_input m) (CHR 0x0A))\<rparr>)"

text \<open>
  The inner comprehension of \<open>capture_news\<close>: for each allow-listed key \<open>k\<close> in order,
  \<open>k in first\<close> is tested and, when it holds, \<open>first[k]\<close> is read (\<open>first\<close> is
  \<open>n["results"][0]\<close>).
\<close>

fun project :: "json \<Rightarrow> string list \<Rightarrow> error + (string \<times> json) list" where
  "project first [] = Inr []"
| "project first (k # ks) =
     (case contains k first of
        Inl e \<Rightarrow> Inl e
      | Inr False \<Rightarrow> project first ks
      | Inr True \<Rightarrow>
          (case getitem first k of
             Inl e \<Rightarrow> Inl e
           | Inr v \<Rightarrow>
               (case project first ks of
                  Inl e \<Rightarrow> Inl e
                | Inr d \<Rightarrow> Inr ((k, v) # d))))"

definition news_keys :: "string list" where
  "news_keys = [''title'', ''url'', ''content'', ''publishedDate'']"

text \<open>
  The outer comprehension: for each \<open>n\<close>, the condition \<open>len(n["results"]) > 0\<close> and,
  when it holds, the projection of \<open>n["results"][0]\<close>.
\<close>

fun collect_news :: "json list \<Rightarrow> error + (string \<times> json) list list" where
  "collect_news [] = Inr []"
| "collect_news (n # ns) =
     (case getitem n ''results'' of
        Inl e \<Rightarrow> Inl e
      | Inr results \<Rightarrow>
          (case len results of
             Inl e \<Rightarrow> Inl e
           | Inr l \<Rightarrow>
               if l > 0 then
                 (case getitem0 results of
                    Inl e \<Rightarrow> Inl e
                  | Inr first \<Rightarrow>
                      (case project first news_keys of
                         Inl e \<Rightarrow> Inl e
                       | Inr item \<Rightarrow>
                           (case collect_news ns of
                              Inl e \<Rightarrow> Inl e
                            | Inr rest \<Rightarrow> Inr (item # rest))))
               else collect_news ns))"

definition capture_news :: "decoder \<Rightarrow> MultiGenieModel \<Rightarrow> outcome" where
  "capture_news loads m =
     (case loads (actor_input m) of
        None \<Rightarrow> Done m
      | Some news_results \<Rightarrow>
          (case iterate news_results of
             Inl e \<Rightarrow> Raised e m
           | Inr ns \<Rightarrow>
               (case collect_news ns of
                  Inl e \<Rightarrow> Raised e m
                | Inr found \<Rightarrow> Done (m\<lparr>news := found\<rparr>))))"

text \<open>
  The condition both \<open>on_exit_ai_decides_path\<close> and \<open>bots_found\<close> apply to an item:
  \<open>bot_name in self.model.bots.keys() and bot_value and bot_value["question"]\<close>, with
  the short circuit of \<open>and\<close>.
\<close>

definition accepts :: "(string \<rightharpoonup> string) \<Rightarrow> string \<Rightarrow> json \<Rightarrow> error + bool" where
  "accepts known bot_name bot_value =
     (if known bot_name = None then Inr False
      else if \<not> truthy bot_value then Inr False
      else (case getitem bot_value ''question'' of
              Inl e \<Rightarrow> Inl e
            | Inr q \<Rightarrow> Inr (truthy q)))"

text \<open>The dict built for an accepted item; \<open>get\<close> is \<open>dict.get\<close> with its default.\<close>

definition get :: "(string \<rightharpoonup> string) \<Rightarrow> string \<Rightarrow> string \<Rightarrow> string" where
  "get d k dflt = (case d k of None \<Rightarrow> dflt | Some v \<Rightarrow> v)"

definition rephrase :: "(string \<rightharpoonup> string) \<Rightarrow> string \<Rightarrow> json \<Rightarrow> error + rephrased" where
  "rephrase known bot_name bot_value =
     (case getitem bot_value ''question'' of
        Inl e \<Rightarrow> Inl e
      | Inr q \<Rightarrow>
          (case getitem bot_value ''reason'' of
             Inl e \<Rightarrow> Inl e
           | Inr r \<Rightarrow>
               Inr \<lparr> name = bot_name,
                     template = get known bot_name ''bots/unknown_bot.jinja2'',
                     question = q,
                     reason = r \<rparr>))"

fun rephrase_all :: "(string \<rightharpoonup> string) \<Rightarrow> (string \<times> json) list \<Rightarrow> error + rephrased list" where
  "rephrase_all known [] = Inr []"
| "rephrase_all known ((bot_name, bot_value) # rest) =
     (case accepts known bot_name bot_value of
        Inl e \<Rightarrow> Inl e
      | Inr False \<Rightarrow> rephrase_all known rest
      | Inr True \<Rightarrow>
          (case rephrase known bot_name bot_value of
             Inl e \<Rightarrow> Inl e
           | Inr entry \<Rightarrow>
               (case rephrase_all known rest of
                  Inl e \<Rightarrow> Inl e
                | Inr entries \<Rightarrow> Inr (entry # entries))))"

definition on_exit_ai_decides_path :: "decoder \<Rightarrow> MultiGenieModel \<Rightarrow> outcome" where
  "on_exit_ai_decides_path loads m =
     (let paths = (case loads (actor_input m) of None \<Rightarrow> JObject [] | Some v \<Rightarrow> v)
      in case items paths of
           Inl e \<Rightarrow> Raised e m
         | Inr kvs \<Rightarrow>
             (case rephrase_all (bots m) kvs of
                Inl e \<Rightarrow> Raised e m
              | Inr entries \<Rightarrow> Done (m\<lparr>rephrased_questions := entries\<rparr>)))"

subsection \<open>The guard\<close>

text \<open>The loop of \<open>bots_found\<close>: the first accepted item returns \<open>True\<close>.\<close>

fun any_accepted :: "(string \<rightharpoonup> string) \<Rightarrow> (string \<times> json) list \<Rightarrow> error + bool" where
  "any_accepted known [] = Inr False"
| "any_accepted known ((bot_name, bot_value) # rest) =
     (case accepts known bot_name bot_value of
        Inl e \<Rightarrow> Inl e
      | Inr True \<Rightarrow> Inr True
      | Inr False \<Rightarrow> any_accepted known rest)"

text \<open>
  \<open>bots_found\<close>: the payload is the first argument of the event. Only the decoding
  stands inside the \<open>try\<close>; the loop over the items follows it.
\<close>

definition bots_found :: "decoder \<Rightarrow> MultiGenieModel \<Rightarrow> string \<Rightarrow> error + bool" where
  "bots_found loads m payload =
     (case loads payload of
        None \<Rightarrow> Inr False
      | Some response \<Rightarrow>
          (case items response of
             Inl e \<Rightarrow> Inl e
           | Inr kvs \<Rightarrow> any_accepted (bots m) kvs))"

subsection \<open>States, triggers and transitions\<close>

datatype state =
    intro
  | ai_decides_path
  | user_views_rephrasing
  | user_views_no_bots_found
  | ai_creates_answer
  | ai_creates_news_queries
  | searching_news
  | user_views_answer

datatype trigger = user_input | processing_done | advance

text \<open>
  A transition is declared with no condition, with \<open>cond="bots_found"\<close> or with
  \<open>unless="bots_found"\<close>; the module has no other guard.
\<close>

datatype condition = Unconditional | Cond | Unless

record transition =
  source :: state
  target :: state
  guard :: condition

text \<open>The transitions of each trigger, in the order of their declaration.\<close>

fun transitions :: "trigger \<Rightarrow> transition list" where
  "transitions user_input =
     [\<lparr>source = intro, target = ai_decides_path, guard = Unconditional\<rparr>,
      \<lparr>source = user_views_answer, target = ai_decides_path, guard = Unconditional\<rparr>,
      \<lparr>source = user_views_no_bots_found, target = ai_decides_path, guard = Unconditional\<rparr>]"
| "transitions processing_done =
     [\<lparr>source = ai_decides_path, target = user_views_rephrasing, guard = Cond\<rparr>,
      \<lparr>source = ai_decides_path, target = user_views_no_bots_found, guard = Unless\<rparr>,
      \<lparr>source = ai_creates_answer, target = ai_creates_news_queries, guard = Unconditional\<rparr>,
      \<lparr>source = ai_creates_news_queries, target = searching_news, guard = Unconditional\<rparr>,
      \<lparr>source = searching_news, target = user_views_answer, guard = Unconditional\<rparr>]"
| "transitions advance =
     [\<lparr>source = user_views_rephrasing, target = ai_creates_answer, guard = Unconditional\<rparr>]"

text \<open>
  The exit action of each state: the \<open>exit=\<close> argument of its declaration, and for
  \<open>ai_decides_path\<close> the method \<open>on_exit_ai_decides_path\<close>, which the library finds by its
  name. \<open>user_views_rephrasing\<close> has none.
\<close>

fun on_exit :: "decoder \<Rightarrow> state \<Rightarrow> MultiGenieModel \<Rightarrow> outcome" where
  "on_exit loads intro m = capture_original_question m"
| "on_exit loads ai_decides_path m = on_exit_ai_decides_path loads m"
| "on_exit loads user_views_rephrasing m = Done m"
| "on_exit loads user_views_no_bots_found m = capture_original_question m"
| "on_exit loads ai_creates_answer m = capture_answer loads m"
| "on_exit loads ai_creates_news_queries m = capture_news_queries m"
| "on_exit loads searching_news m = capture_news loads m"
| "on_exit loads user_views_answer m = capture_original_question m"

subsection \<open>Firing a trigger\<close>

text \<open>
  Modelled from the spec: the engine that fires a trigger is not part of the module.
  \<open>MultiGenieMachine\<close> inherits it from \<open>GenieStateMachine\<close> (package \<open>genie_flow\<close>, over
  the \<open>statemachine\<close> library), whose code is not in the repository. The definitions of
  this subsection follow the transition algorithm and the data flow of the
  specification: the candidates of a trigger are its transitions out of the current
  state, in declaration order; the first candidate whose guard holds is taken; when
  there is none the trigger is rejected with \<open>InvalidTransition\<close> and nothing changes.
  Taking a transition stores the payload of the trigger as the actor input of the
  model, runs the exit action of the state being left and then enters the target. An
  exception raised by a guard or by an exit action leaves the machine in the state it
  was in.
\<close>

definition candidates :: "trigger \<Rightarrow> state \<Rightarrow> transition list" where
  "candidates trig s = filter (\<lambda>t. source t = s) (transitions trig)"

text \<open>Whether the guard of a transition holds for a payload.\<close>

fun holds :: "decoder \<Rightarrow> MultiGenieModel \<Rightarrow> string \<Rightarrow> condition \<Rightarrow> error + bool" where
  "holds loads m payload Unconditional = Inr True"
| "holds loads m payload Cond = bots_found loads m payload"
| "holds loads m payload Unless =
     (case bots_found loads m payload of Inl e \<Rightarrow> Inl e | Inr b \<Rightarrow> Inr (\<not> b))"

fun first_match ::
  "decoder \<Rightarrow> MultiGenieModel \<Rightarrow> string \<Rightarrow> transition list \<Rightarrow> error + transition option" where
  "first_match loads m payload [] = Inr None"
| "first_match loads m payload (t # ts) =
     (case holds loads m payload (guard t) of
        Inl e \<Rightarrow> Inl e
      | Inr True \<Rightarrow> Inr (Some t)
      | Inr False \<Rightarrow> first_match loads m payload ts)"

text \<open>
  The result of firing a trigger: the machine moved to a state, or the trigger failed
  with an exception in the state it was fired in. Both carry the model afterwards.
\<close>

datatype fired = Moved state MultiGenieModel | Failed error state MultiGenieModel

definition fire :: "decoder \<Rightarrow> trigger \<Rightarrow> string \<Rightarrow> state \<Rightarrow> MultiGenieModel \<Rightarrow> fired" where
  "fire loads trig payload s m =
     (case first_match loads m payload (candidates trig s) of
        Inl e \<Rightarrow> Failed e s m
      | Inr None \<Rightarrow> Failed InvalidTransition s m
      | Inr (Some t) \<Rightarrow>
          (case on_exit loads s (m\<lparr>actor_input := payload\<rparr>) of
             Done m' \<Rightarrow> Moved (target t) m'
           | Raised e m' \<Rightarrow> Failed e s m'))"

subsection \<open>Reference notions for the properties\<close>

text \<open>
  The definitions of this subsection are not code of the module. They say in the words
  of the specification what the results of the capture functions are to be compared
  with, and name the values the scenarios use.
\<close>

text \<open>\<open>sep.join(pieces)\<close>: the pieces with the separator between them.\<close>

fun str_join :: "char \<Rightarrow> string list \<Rightarrow> string" where
  "str_join sep [] = []"
| "str_join sep [p] = p"
| "str_join sep (p # q # ps) = p @ sep # str_join sep (q # ps)"

fun is_dict :: "json \<Rightarrow> bool" where
  "is_dict (JObject fs) = True"
| "is_dict JNull = False"
| "is_dict (JBool b) = False"
| "is_dict (JInt i) = False"
| "is_dict (JFloat f) = False"
| "is_dict (JString s) = False"
| "is_dict (JArray xs) = False"

text \<open>
  A search-source entry is a dict whose \<open>results\<close> is a list of result dicts;
  \<open>results_of\<close> is that list.
\<close>

fun results_of :: "json \<Rightarrow> json list option" where
  "results_of (JObject kvs) =
     (case map_of kvs ''results'' of Some (JArray rs) \<Rightarrow> Some rs | _ \<Rightarrow> None)"
| "results_of JNull = None"
| "results_of (JBool b) = None"
| "results_of (JInt i) = None"
| "results_of (JFloat f) = None"
| "results_of (JString s) = None"
| "results_of (JArray xs) = None"

definition search_source :: "json \<Rightarrow> bool" where
  "search_source n = (case results_of n of Some rs \<Rightarrow> list_all is_dict rs | None \<Rightarrow> False)"

text \<open>
  A result restricted to the allow-listed keys, in the order of the allow-list; a key
  the result does not have is left out.
\<close>

fun allowed_fields :: "json \<Rightarrow> (string \<times> json) list" where
  "allowed_fields (JObject fs) =
     List.map_filter (\<lambda>k. map_option (Pair k) (map_of fs k)) news_keys"
| "allowed_fields JNull = []"
| "allowed_fields (JBool b) = []"
| "allowed_fields (JInt i) = []"
| "allowed_fields (JFloat f) = []"
| "allowed_fields (JString s) = []"
| "allowed_fields (JArray xs) = []"

text \<open>
  The news of a list of search-source entries: the entries with at least one result,
  in order, each as the allowed fields of its first result.
\<close>

fun has_results :: "json \<Rightarrow> bool" where
  "has_results n = (case results_of n of Some (r # rs) \<Rightarrow> True | _ \<Rightarrow> False)"

fun first_result :: "json \<Rightarrow> json" where
  "first_result n = (case results_of n of Some (r # rs) \<Rightarrow> r | _ \<Rightarrow> JNull)"

definition backed_news :: "json list \<Rightarrow> (string \<times> json) list list" where
  "backed_news ns = map (\<lambda>n. allowed_fields (first_result n)) (filter has_results ns)"

text \<open>An entry left in the model by an earlier routing step.\<close>

definition stale :: rephrased where
  "stale = \<lparr>name = ''Task Dictionary'', template = ''task_dictionary/task_bot.jinja2'',
            question = JString ''q0'', reason = JString ''r0''\<rparr>"

text \<open>
  A routing reply that names the known bot and a bot the model does not know, and the
  reply of the search step in the last scenario of the specification.
\<close>

definition routing :: json where
  "routing =
     JObject [(''Task Dictionary'', JObject [(''question'', JString ''q1''), (''reason'', JString ''r1'')]),
              (''Stranger'', JObject [(''question'', JString ''q2''), (''reason'', JString ''r2'')])]"

definition search_reply :: "json list" where
  "search_reply =
     [JObject [(''results'', JArray [JObject [(''title'', JString ''t''), (''url'', JString ''u'')]])],
      JObject [(''results'', JArray [])]]"

section \<open>Properties\<close>

subsection \<open>The candidates of each trigger\<close>

lemma candidates_user_input:
  "candidates user_input intro = [\<lparr>source = intro, target = ai_decides_path, guard = Unconditional\<rparr>]"
  "candidates user_input user_views_answer =
     [\<lparr>source = user_views_answer, target = ai_decides_path, guard = Unconditional\<rparr>]"
  "candidates user_input user_views_no_bots_found =
     [\<lparr>source = user_views_no_bots_found, target = ai_decides_path, guard = Unconditional\<rparr>]"
  by (simp_all add: candidates_def)

lemma candidates_processing_done:
  "candidates processing_done ai_decides_path =
     [\<lparr>source = ai_decides_path, target = user_views_rephrasing, guard = Cond\<rparr>,
      \<lparr>source = ai_decides_path, target = user_views_no_bots_found, guard = Unless\<rparr>]"
  "candidates processing_done ai_creates_answer =
     [\<lparr>source = ai_creates_answer, target = ai_creates_news_queries, guard = Unconditional\<rparr>]"
  "candidates processing_done ai_creates_news_queries =
     [\<lparr>source = ai_creates_news_queries, target = searching_news, guard = Unconditional\<rparr>]"
  "candidates processing_done searching_news =
     [\<lparr>source = searching_news, target = user_views_answer, guard = Unconditional\<rparr>]"
  by (simp_all add: candidates_def)

lemma no_candidates_iff:
  "candidates trig s = [] \<longleftrightarrow> s \<notin> source ` set (transitions trig)"
  by (auto simp: candidates_def filter_empty_conv)

text \<open>The pairs of a trigger and a state that have a declared transition.\<close>

lemma declared_pairs:
  "s \<in> source ` set (transitions trig) \<longleftrightarrow>
     (trig = user_input \<and> s \<in> {intro, user_views_answer, user_views_no_bots_found})
   \<or> (trig = processing_done
        \<and> s \<in> {ai_decides_path, ai_creates_answer, ai_creates_news_queries, searching_news})
   \<or> (trig = advance \<and> s = user_views_rephrasing)"
  by (cases trig) auto

subsection \<open>Firing \<open>user_input\<close>\<close>

text \<open>
  C9. For every payload, \<open>user_input\<close> fired in \<open>intro\<close>, in \<open>user_views_answer\<close> or in
  \<open>user_views_no_bots_found\<close> moves the machine to \<open>ai_decides_path\<close>, and the exit action
  of the state that is left has run by then: the original question of the model is the
  payload. The rest of the model is as before, but for the actor input.
\<close>

theorem user_input_captures_question:
  "fire loads user_input payload intro m =
     Moved ai_decides_path (m\<lparr>actor_input := payload, original_question := payload\<rparr>)
   \<and> fire loads user_input payload user_views_answer m =
     Moved ai_decides_path (m\<lparr>actor_input := payload, original_question := payload\<rparr>)
   \<and> fire loads user_input payload user_views_no_bots_found m =
     Moved ai_decides_path (m\<lparr>actor_input := payload, original_question := payload\<rparr>)"
  by (simp add: fire_def candidates_user_input capture_original_question_def)

text \<open>The first scenario: the question \<open>What is X?\<close> asked in \<open>intro\<close>.\<close>

theorem user_input_captures_question_witness:
  "fire Map.empty user_input ''What is X?'' intro default_model =
     Moved ai_decides_path
       (default_model\<lparr>actor_input := ''What is X?'', original_question := ''What is X?''\<rparr>)
   \<and> original_question
        (default_model\<lparr>actor_input := ''What is X?'', original_question := ''What is X?''\<rparr>) =
       ''What is X?''"
  using user_input_captures_question [of Map.empty "''What is X?''" default_model]
  by simp

subsection \<open>Triggers without a transition\<close>

text \<open>
  C6. A trigger that has no declared transition out of the current state fails with
  \<open>InvalidTransition\<close>; the state and the model stay as they were.
\<close>

theorem undeclared_trigger_rejected:
  assumes "s \<notin> source ` set (transitions trig)"
  shows "fire loads trig payload s m = Failed InvalidTransition s m"
proof -
  from assms have "candidates trig s = []"
    by (simp add: no_candidates_iff)
  then show ?thesis
    by (simp add: fire_def)
qed

text \<open>\<open>advance\<close> fired in \<open>intro\<close>, and \<open>user_input\<close> fired in \<open>ai_decides_path\<close>.\<close>

theorem undeclared_trigger_rejected_witness:
  "intro \<notin> source ` set (transitions advance)
   \<and> fire Map.empty advance [] intro default_model = Failed InvalidTransition intro default_model
   \<and> ai_decides_path \<notin> source ` set (transitions user_input)
   \<and> fire Map.empty user_input ''hello'' ai_decides_path default_model =
       Failed InvalidTransition ai_decides_path default_model"
proof -
  have a: "intro \<notin> source ` set (transitions advance)" by simp
  have b: "ai_decides_path \<notin> source ` set (transitions user_input)" by simp
  show ?thesis
    using a b undeclared_trigger_rejected [OF a, of Map.empty "[]" default_model]
      undeclared_trigger_rejected [OF b, of Map.empty "''hello''" default_model]
    by simp
qed

subsection \<open>The guard \<open>bots_found\<close>\<close>

text \<open>Where the guard returns: text that is not JSON, and a dict without a known bot.\<close>

lemma bots_found_not_json:
  "loads payload = None \<Longrightarrow> bots_found loads m payload = Inr False"
  by (simp add: bots_found_def)

lemma any_accepted_unknown:
  "\<forall>kv \<in> set kvs. known (fst kv) = None \<Longrightarrow> any_accepted known kvs = Inr False"
  by (induction kvs) (auto simp: accepts_def)

lemma bots_found_no_known_bot:
  "loads payload = Some (JObject kvs) \<Longrightarrow> \<forall>kv \<in> set kvs. bots m (fst kv) = None \<Longrightarrow>
     bots_found loads m payload = Inr False"
  by (simp add: bots_found_def any_accepted_unknown)

text \<open>
  C4. The guard is claimed to return a boolean for every payload. It does not: the
  loop over \<open>response.items()\<close> stands after the \<open>try\<close>, so a payload that decodes to a
  value without \<open>items\<close> (the JSON list \<open>[]\<close>) leaves the guard with \<open>AttributeError\<close>, and
  a known bot whose value is a dict without \<open>question\<close> leaves it with \<open>KeyError\<close>.
\<close>

theorem bots_found_raises:
  "bots_found [''[]'' \<mapsto> JArray []] default_model ''[]'' = Inl AttributeError
   \<and> bots_found
        [''{\"Task Dictionary\": {\"reason\": \"r\"}}'' \<mapsto>
           JObject [(''Task Dictionary'', JObject [(''reason'', JString ''r'')])]]
        default_model ''{\"Task Dictionary\": {\"reason\": \"r\"}}'' = Inl KeyError"
  by (simp add: bots_found_def default_model_def accepts_def)

subsection \<open>Firing \<open>processing_done\<close> in \<open>ai_decides_path\<close>\<close>

text \<open>
  When the guard returns, exactly one of the two transitions out of \<open>ai_decides_path\<close>
  has a guard that holds.
\<close>

lemma one_candidate_when_guard_returns:
  assumes "bots_found loads m payload = Inr b"
  shows "length (filter (\<lambda>t. holds loads m payload (guard t) = Inr True)
                   (candidates processing_done ai_decides_path)) = 1"
  using assms by (cases b) (simp_all add: candidates_processing_done)

text \<open>
  C5. Exactly one of the two transitions is claimed to match for every payload. For
  the payload \<open>[]\<close> the guard raises, so neither \<open>cond\<close> nor \<open>unless\<close> holds: no
  transition matches, and the trigger fails with \<open>AttributeError\<close> in
  \<open>ai_decides_path\<close>.
\<close>

theorem processing_done_no_match:
  "filter (\<lambda>t. holds [''[]'' \<mapsto> JArray []] default_model ''[]'' (guard t) = Inr True)
     (candidates processing_done ai_decides_path) = []
   \<and> fire [''[]'' \<mapsto> JArray []] processing_done ''[]'' ai_decides_path default_model =
       Failed AttributeError ai_decides_path default_model"
  by (simp add: fire_def candidates_processing_done bots_found_def)

text \<open>When no item is accepted, the exit action stores the empty list.\<close>

lemma any_accepted_False_rephrase_all:
  "any_accepted known kvs = Inr False \<Longrightarrow> rephrase_all known kvs = Inr []"
proof (induction kvs)
  case Nil
  then show ?case by simp
next
  case (Cons kv kvs)
  obtain k v where kv: "kv = (k, v)" by (cases kv)
  from Cons.prems kv have "accepts known k v = Inr False" and "any_accepted known kvs = Inr False"
    by (auto split: sum.splits bool.splits)
  with Cons.IH kv show ?case by simp
qed

lemma bots_found_False_on_exit:
  assumes "bots_found loads m payload = Inr False" and "actor_input m' = payload" and "bots m' = bots m"
  shows "on_exit_ai_decides_path loads m' = Done (m'\<lparr>rephrased_questions := []\<rparr>)"
proof (cases "loads payload")
  case None
  with assms(2) show ?thesis
    by (simp add: on_exit_ai_decides_path_def)
next
  case (Some response)
  with assms(1) obtain kvs where "items response = Inr kvs" and "any_accepted (bots m) kvs = Inr False"
    by (auto simp: bots_found_def split: sum.splits)
  with Some assms(2,3) show ?thesis
    by (simp add: on_exit_ai_decides_path_def any_accepted_False_rephrase_all)
qed

text \<open>
  C1, as the code has it. Whenever the guard returns false (text that is not JSON, the
  empty mapping, any mapping without an accepted item), \<open>processing_done\<close> fired in
  \<open>ai_decides_path\<close> moves the machine to \<open>user_views_no_bots_found\<close>, and the exit action
  sets \<open>rephrased_questions\<close> to the empty list: the list is rebuilt from the payload,
  not kept.
\<close>

theorem no_bots_found_clears_rephrasings:
  assumes "bots_found loads m payload = Inr False"
  shows "fire loads processing_done payload ai_decides_path m =
           Moved user_views_no_bots_found (m\<lparr>actor_input := payload, rephrased_questions := []\<rparr>)"
proof -
  have "on_exit_ai_decides_path loads (m\<lparr>actor_input := payload\<rparr>) =
          Done (m\<lparr>actor_input := payload, rephrased_questions := []\<rparr>)"
    using bots_found_False_on_exit [OF assms, of "m\<lparr>actor_input := payload\<rparr>"] by simp
  with assms show ?thesis
    by (simp add: fire_def candidates_processing_done)
qed

text \<open>Text that is not JSON, fired on a model that holds an entry of an earlier turn.\<close>

theorem no_bots_found_clears_rephrasings_witness:
  "bots_found Map.empty (default_model\<lparr>rephrased_questions := [stale]\<rparr>) ''not-json'' = Inr False
   \<and> fire Map.empty processing_done ''not-json'' ai_decides_path
        (default_model\<lparr>rephrased_questions := [stale]\<rparr>) =
       Moved user_views_no_bots_found
         (default_model\<lparr>rephrased_questions := [], actor_input := ''not-json''\<rparr>)"
proof -
  have g: "bots_found Map.empty (default_model\<lparr>rephrased_questions := [stale]\<rparr>) ''not-json'' = Inr False"
    by (simp add: bots_found_def)
  show ?thesis
    using g no_bots_found_clears_rephrasings [OF g] by simp
qed

text \<open>
  C1, as stated, fails: with the payload \<open>{}\<close> on a model whose \<open>rephrased_questions\<close>
  holds an entry, the machine moves to \<open>user_views_no_bots_found\<close> and the list is empty
  afterwards, not what it was.
\<close>

theorem empty_mapping_resets_rephrasings:
  "fire [''{}'' \<mapsto> JObject []] processing_done ''{}'' ai_decides_path
        (default_model\<lparr>rephrased_questions := [stale]\<rparr>) =
       Moved user_views_no_bots_found
         (default_model\<lparr>rephrased_questions := [], actor_input := ''{}''\<rparr>)
   \<and> rephrased_questions (default_model\<lparr>rephrased_questions := [], actor_input := ''{}''\<rparr>)
       \<noteq> rephrased_questions (default_model\<lparr>rephrased_questions := [stale]\<rparr>)"
  by (simp add: fire_def candidates_processing_done bots_found_def on_exit_ai_decides_path_def)

subsection \<open>The guard and the filter of the exit action\<close>

text \<open>
  Where the exit action returns, the guard agrees with it: the guard is true exactly
  when the stored list is not empty.
\<close>

lemma rephrase_all_any_accepted:
  "rephrase_all known kvs = Inr entries \<Longrightarrow> any_accepted known kvs = Inr (entries \<noteq> [])"
proof (induction kvs arbitrary: entries)
  case Nil
  then show ?case by simp
next
  case (Cons kv kvs)
  obtain k v where kv: "kv = (k, v)" by (cases kv)
  show ?case
  proof (cases "accepts known k v")
    case (Inl e)
    with Cons.prems kv show ?thesis by simp
  next
    case (Inr b)
    with Cons kv show ?thesis
      by (cases b) (auto split: sum.splits)
  qed
qed

lemma guard_agrees_where_exit_returns:
  assumes "on_exit_ai_decides_path loads m = Done m'"
  shows "bots_found loads m (actor_input m) = Inr (rephrased_questions m' \<noteq> [])"
proof (cases "loads (actor_input m)")
  case None
  with assms show ?thesis
    by (auto simp: on_exit_ai_decides_path_def bots_found_def)
next
  case (Some response)
  with assms obtain kvs entries where "items response = Inr kvs"
    and "rephrase_all (bots m) kvs = Inr entries" and "m' = m\<lparr>rephrased_questions := entries\<rparr>"
    by (auto simp: on_exit_ai_decides_path_def split: sum.splits)
  with Some show ?thesis
    by (simp add: bots_found_def rephrase_all_any_accepted)
qed

text \<open>
  C3. The guard and the filter are claimed to accept the same items, also where a
  value lacks \<open>reason\<close>. They do not: for a known bot whose value has a question and no
  reason the guard returns true, and the exit action raises \<open>KeyError\<close> while it builds
  the entry, so nothing is stored.
\<close>

theorem guard_accepts_filter_raises:
  "bots_found
     [''{\"Task Dictionary\": {\"question\": \"q\"}}'' \<mapsto>
        JObject [(''Task Dictionary'', JObject [(''question'', JString ''q'')])]]
     default_model ''{\"Task Dictionary\": {\"question\": \"q\"}}'' = Inr True
   \<and> on_exit_ai_decides_path
        [''{\"Task Dictionary\": {\"question\": \"q\"}}'' \<mapsto>
           JObject [(''Task Dictionary'', JObject [(''question'', JString ''q'')])]]
        (default_model\<lparr>actor_input := ''{\"Task Dictionary\": {\"question\": \"q\"}}''\<rparr>) =
       Raised KeyError (default_model\<lparr>actor_input := ''{\"Task Dictionary\": {\"question\": \"q\"}}''\<rparr>)"
  by (simp add: bots_found_def on_exit_ai_decides_path_def default_model_def accepts_def rephrase_def)

subsection \<open>The templates of the stored entries\<close>

lemma accepts_True_known:
  "accepts known k v = Inr True \<Longrightarrow> known k \<noteq> None"
  by (auto simp: accepts_def split: if_splits)

lemma rephrase_fields:
  "rephrase known k v = Inr e \<Longrightarrow> name e = k \<and> template e = get known k ''bots/unknown_bot.jinja2''"
  by (auto simp: rephrase_def split: sum.splits)

lemma rephrase_all_templates:
  "rephrase_all known kvs = Inr entries \<Longrightarrow> \<forall>e \<in> set entries. known (name e) = Some (template e)"
proof (induction kvs arbitrary: entries)
  case Nil
  then show ?case by simp
next
  case (Cons kv kvs)
  obtain k v where kv: "kv = (k, v)" by (cases kv)
  show ?case
  proof (cases "accepts known k v")
    case (Inl e)
    with Cons.prems kv show ?thesis by simp
  next
    case (Inr b)
    show ?thesis
    proof (cases b)
      case False
      with Inr Cons kv show ?thesis by simp
    next
      case True
      with Inr Cons.prems kv obtain e es where e: "rephrase known k v = Inr e"
        and es: "rephrase_all known kvs = Inr es" and entries: "entries = e # es"
        by (auto split: sum.splits)
      from Inr True have "known k \<noteq> None" by (simp add: accepts_True_known)
      with rephrase_fields [OF e] have "known (name e) = Some (template e)"
        by (auto simp: get_def)
      with Cons.IH [OF es] entries show ?thesis by simp
    qed
  qed
qed

text \<open>
  C10. Every entry the exit action stores has the template that \<open>bots\<close> gives for its
  name: the name is a key of \<open>bots\<close>, so the default of the lookup is never the value
  stored.
\<close>

theorem stored_template_is_bot_template:
  assumes "on_exit_ai_decides_path loads m = Done m'"
  shows "\<forall>e \<in> set (rephrased_questions m'). bots m (name e) = Some (template e)"
proof -
  from assms obtain kvs entries where "rephrase_all (bots m) kvs = Inr entries"
    and "m' = m\<lparr>rephrased_questions := entries\<rparr>"
    by (auto simp: on_exit_ai_decides_path_def Let_def split: sum.splits)
  with rephrase_all_templates show ?thesis by fastforce
qed

text \<open>
  A reply that routes to the known bot and to an unknown one: only the known bot is
  stored, with its own template.
\<close>

lemma on_exit_routing:
  "on_exit_ai_decides_path [''paths'' \<mapsto> routing] (default_model\<lparr>actor_input := ''paths''\<rparr>) =
     Done (default_model\<lparr>actor_input := ''paths'',
             rephrased_questions :=
               [\<lparr>name = ''Task Dictionary'', template = ''task_dictionary/task_bot.jinja2'',
                 question = JString ''q1'', reason = JString ''r1''\<rparr>]\<rparr>)"
  by (simp add: on_exit_ai_decides_path_def routing_def default_model_def accepts_def rephrase_def get_def)

theorem stored_template_is_bot_template_witness:
  "on_exit_ai_decides_path [''paths'' \<mapsto> routing] (default_model\<lparr>actor_input := ''paths''\<rparr>) =
     Done (default_model\<lparr>actor_input := ''paths'',
             rephrased_questions :=
               [\<lparr>name = ''Task Dictionary'', template = ''task_dictionary/task_bot.jinja2'',
                 question = JString ''q1'', reason = JString ''r1''\<rparr>]\<rparr>)
   \<and> bots (default_model\<lparr>actor_input := ''paths''\<rparr>) ''Task Dictionary'' =
       Some ''task_dictionary/task_bot.jinja2''"
  using stored_template_is_bot_template [OF on_exit_routing] on_exit_routing
  by simp

subsection \<open>\<open>capture_answer\<close>\<close>

text \<open>
  Where the capture is all or nothing: text that is not JSON leaves the model as it
  is, and a dict with both keys writes both fields.
\<close>

lemma capture_answer_not_json:
  "loads (actor_input m) = None \<Longrightarrow> capture_answer loads m = Done m"
  by (simp add: capture_answer_def)

lemma capture_answer_both:
  assumes "loads (actor_input m) = Some (JObject kvs)"
    and "map_of kvs ''answer'' = Some a" and "map_of kvs ''follow_up'' = Some f"
  shows "capture_answer loads m = Done (m\<lparr>answer := a, follow_up := f\<rparr>)"
  using assms by (simp add: capture_answer_def)

text \<open>
  C2. A partial write is claimed never to occur. For the input \<open>{"answer": "a"}\<close> it
  does: \<open>answer\<close> is assigned before \<open>answer_dict["follow_up"]\<close> raises \<open>KeyError\<close>, so the
  model is left with the new answer and the old follow-up.
\<close>

theorem capture_answer_partial_write:
  "capture_answer [''{\"answer\": \"a\"}'' \<mapsto> JObject [(''answer'', JString ''a'')]]
     (default_model\<lparr>actor_input := ''{\"answer\": \"a\"}''\<rparr>) =
     Raised KeyError (default_model\<lparr>actor_input := ''{\"answer\": \"a\"}'', answer := JString ''a''\<rparr>)
   \<and> answer (default_model\<lparr>actor_input := ''{\"answer\": \"a\"}'', answer := JString ''a''\<rparr>)
       \<noteq> answer default_model
   \<and> follow_up (default_model\<lparr>actor_input := ''{\"answer\": \"a\"}'', answer := JString ''a''\<rparr>)
       = follow_up default_model"
  by (simp add: capture_answer_def default_model_def)

subsection \<open>\<open>capture_news\<close>\<close>

lemma project_dict:
  "project (JObject fs) ks = Inr (List.map_filter (\<lambda>k. map_option (Pair k) (map_of fs k)) ks)"
  by (induction ks) (auto simp: List.map_filter_simps split: option.splits)

lemma search_source_cases:
  assumes "search_source n"
  obtains kvs where "n = JObject kvs" and "map_of kvs ''results'' = Some (JArray [])"
  | kvs fs rs where "n = JObject kvs" and "map_of kvs ''results'' = Some (JArray (JObject fs # rs))"
proof -
  from assms obtain kvs rs where n: "n = JObject kvs" and r: "map_of kvs ''results'' = Some (JArray rs)"
    and d: "list_all is_dict rs"
    by (cases n) (auto simp: search_source_def split: option.splits json.splits)
  show thesis
  proof (cases rs)
    case Nil
    with n r that(1) show ?thesis by simp
  next
    case (Cons x xs)
    with d obtain fs where "x = JObject fs" by (cases x) auto
    with Cons n r that(2) show ?thesis by simp
  qed
qed

lemma collect_news_backed:
  "list_all search_source ns \<Longrightarrow> collect_news ns = Inr (backed_news ns)"
proof (induction ns)
  case Nil
  then show ?case by (simp add: backed_news_def)
next
  case (Cons n ns)
  then have src: "search_source n" and rest: "collect_news ns = Inr (backed_news ns)"
    by simp_all
  from src show ?case
  proof (cases rule: search_source_cases)
    case (1 kvs)
    with rest show ?thesis by (simp add: backed_news_def)
  next
    case (2 kvs fs rs)
    with rest show ?thesis by (simp add: backed_news_def project_dict)
  qed
qed

text \<open>The news holds allow-listed keys only, and one item for each entry with a result.\<close>

lemma allowed_fields_keys:
  "(k, v) \<in> set (allowed_fields r) \<Longrightarrow> k \<in> set news_keys"
  by (cases r) (auto simp: List.map_filter_def)

lemma backed_news_length:
  "length (backed_news ns) = length (filter has_results ns)"
  by (simp add: backed_news_def)

text \<open>
  C7. For an input that decodes to a list of search-source entries, \<open>capture_news\<close>
  sets \<open>news\<close> to the entries with at least one result, each as its first result
  restricted to the allow-listed keys; the entries without a result are dropped.
\<close>

theorem capture_news_keeps_backed_entries:
  assumes "loads (actor_input m) = Some (JArray ns)" and "list_all search_source ns"
  shows "capture_news loads m = Done (m\<lparr>news := backed_news ns\<rparr>)"
  using assms by (simp add: capture_news_def collect_news_backed)

text \<open>
  The last scenario of the specification: \<open>processing_done\<close> fired in \<open>searching_news\<close>
  with two entries, the second without a result.
\<close>

theorem capture_news_keeps_backed_entries_witness:
  "list_all search_source search_reply
   \<and> fire [''[{\"results\":[{\"title\":\"t\",\"url\":\"u\"}]},{\"results\":[]}]'' \<mapsto> JArray search_reply]
        processing_done ''[{\"results\":[{\"title\":\"t\",\"url\":\"u\"}]},{\"results\":[]}]''
        searching_news default_model =
     Moved user_views_answer
       (default_model\<lparr>actor_input := ''[{\"results\":[{\"title\":\"t\",\"url\":\"u\"}]},{\"results\":[]}]'',
                      news := [[(''title'', JString ''t''), (''url'', JString ''u'')]]\<rparr>)"
proof -
  let ?p = "''[{\"results\":[{\"title\":\"t\",\"url\":\"u\"}]},{\"results\":[]}]''"
  let ?m = "default_model\<lparr>actor_input := ?p\<rparr>"
  have wf: "list_all search_source search_reply"
    by (simp add: search_reply_def search_source_def)
  have dec: "[?p \<mapsto> JArray search_reply] (actor_input ?m) = Some (JArray search_reply)"
    by simp
  have "backed_news search_reply = [[(''title'', JString ''t''), (''url'', JString ''u'')]]"
    by (simp add: backed_news_def search_reply_def news_keys_def List.map_filter_simps)
  with capture_news_keeps_backed_entries [of "[?p \<mapsto> JArray search_reply]" ?m search_reply] dec wf
  show ?thesis
    by (simp add: fire_def candidates_processing_done)
qed

subsection \<open>\<open>capture_news_queries\<close>\<close>

lemma str_split_not_Nil: "str_split s sep \<noteq> []"
  by (induction s) (auto split: list.splits)

lemma str_join_str_split: "str_join sep (str_split s sep) = s"
proof (induction s)
  case Nil
  then show ?case by simp
next
  case (Cons c cs)
  obtain p ps where ps: "str_split cs sep = p # ps"
    using str_split_not_Nil [of cs sep] by (cases "str_split cs sep") auto
  with Cons show ?case
    by (cases ps) auto
qed

lemma str_split_no_sep: "\<forall>p \<in> set (str_split s sep). sep \<notin> set p"
  by (induction s) (auto split: list.splits)

lemma str_split_length: "length (str_split s sep) = Suc (count_list s sep)"
proof (induction s)
  case Nil
  then show ?case by simp
next
  case (Cons c cs)
  obtain p ps where "str_split cs sep = p # ps"
    using str_split_not_Nil [of cs sep] by (cases "str_split cs sep") auto
  with Cons show ?case by auto
qed

lemma str_replace_delete: "str_replace q old [] = filter (\<lambda>c. c \<noteq> old) q"
  by (induction q) auto

text \<open>
  The pieces of a text are determined by the text: two non-empty lists of pieces
  without the separator that join to the same text are the same list.
\<close>

lemma append_sep_eq:
  "a @ sep # x = b @ sep # y \<Longrightarrow> sep \<notin> set a \<Longrightarrow> sep \<notin> set b \<Longrightarrow> a = b \<and> x = y"
proof (induction a arbitrary: b)
  case Nil
  then show ?case by (cases b) auto
next
  case (Cons c a)
  then show ?case by (cases b) auto
qed

lemma str_join_Cons:
  "qs \<noteq> [] \<Longrightarrow> str_join sep (p # qs) = p @ sep # str_join sep qs"
  by (cases qs) simp_all

lemma str_join_unique:
  assumes "str_join sep ps = str_join sep qs" and "ps \<noteq> []" and "qs \<noteq> []"
    and "\<forall>p \<in> set ps. sep \<notin> set p" and "\<forall>q \<in> set qs. sep \<notin> set q"
  shows "ps = qs"
  using assms
proof (induction ps arbitrary: qs)
  case Nil
  then show ?case by simp
next
  case (Cons p ps)
  from Cons.prems(3) obtain q qs' where qs: "qs = q # qs'"
    by (cases qs) simp_all
  from Cons.prems(4) have p: "sep \<notin> set p" and ps: "\<forall>x \<in> set ps. sep \<notin> set x"
    by simp_all
  from Cons.prems(5) qs have q: "sep \<notin> set q" and qs': "\<forall>x \<in> set qs'. sep \<notin> set x"
    by simp_all
  from Cons.prems(1) qs have eq: "str_join sep (p # ps) = str_join sep (q # qs')"
    by simp
  show ?case
  proof (cases "ps = []")
    case True
    show ?thesis
    proof (cases "qs' = []")
      case True
      with \<open>ps = []\<close> eq qs show ?thesis by simp
    next
      case False
      with \<open>ps = []\<close> eq have "p = q @ sep # str_join sep qs'"
        by (simp add: str_join_Cons)
      then have "sep \<in> set p" by simp
      with p show ?thesis by simp
    qed
  next
    case False
    show ?thesis
    proof (cases "qs' = []")
      case True
      with \<open>ps \<noteq> []\<close> eq have "q = p @ sep # str_join sep ps"
        by (simp add: str_join_Cons)
      then have "sep \<in> set q" by simp
      with q show ?thesis by simp
    next
      case False
      with \<open>ps \<noteq> []\<close> eq have "p @ sep # str_join sep ps = q @ sep # str_join sep qs'"
        by (simp add: str_join_Cons)
      with p q have "p = q" and "str_join sep ps = str_join sep qs'"
        using append_sep_eq [of p sep "str_join sep ps" q "str_join sep qs'"] by simp_all
      with Cons.IH [of qs'] \<open>ps \<noteq> []\<close> False ps qs' qs show ?thesis
        by simp
    qed
  qed
qed

text \<open>
  C8. \<open>capture_news_queries\<close> sets \<open>news_queries\<close> to the lines of the input, each with
  its quote characters removed. The lines are the pieces between the newlines, in
  order: joined with newlines they give the input back, none holds a newline, and
  there is one more of them than the input has newlines.
\<close>

theorem capture_news_queries_lines:
  "\<exists>lines. lines \<noteq> []
     \<and> str_join (CHR 0x0A) lines = actor_input m
     \<and> (\<forall>l \<in> set lines. CHR 0x0A \<notin> set l)
     \<and> length lines = Suc (count_list (actor_input m) (CHR 0x0A))
     \<and> capture_news_queries m =
         Done (m\<lparr>news_queries := map (filter (\<lambda>c. c \<noteq> CHR 0x22)) lines\<rparr>)"
proof (intro exI conjI)
  show "str_split (actor_input m) (CHR 0x0A) \<noteq> []"
    by (rule str_split_not_Nil)
  show "str_join (CHR 0x0A) (str_split (actor_input m) (CHR 0x0A)) = actor_input m"
    by (rule str_join_str_split)
  show "\<forall>l \<in> set (str_split (actor_input m) (CHR 0x0A)). CHR 0x0A \<notin> set l"
    by (rule str_split_no_sep)
  show "length (str_split (actor_input m) (CHR 0x0A)) = Suc (count_list (actor_input m) (CHR 0x0A))"
    by (rule str_split_length)
  show "capture_news_queries m =
          Done (m\<lparr>news_queries := map (filter (\<lambda>c. c \<noteq> CHR 0x22)) (str_split (actor_input m) (CHR 0x0A))\<rparr>)"
    by (simp add: capture_news_queries_def str_replace_delete)
qed

text \<open>Three lines, the first with quotes and the last empty.\<close>

theorem capture_news_queries_lines_witness:
  "capture_news_queries (default_model\<lparr>actor_input := ''\"solar\" power\<newline>wind\<newline>''\<rparr>) =
     Done (default_model\<lparr>actor_input := ''\"solar\" power\<newline>wind\<newline>'',
                         news_queries := [''solar power'', ''wind'', '''']\<rparr>)"
proof -
  let ?m = "default_model\<lparr>actor_input := ''\"solar\" power\<newline>wind\<newline>''\<rparr>"
  from capture_news_queries_lines [of ?m] obtain lines where ne: "lines \<noteq> []"
    and j: "str_join (CHR 0x0A) lines = actor_input ?m"
    and n: "\<forall>l \<in> set lines. CHR 0x0A \<notin> set l"
    and c: "capture_news_queries ?m = Done (?m\<lparr>news_queries := map (filter (\<lambda>c. c \<noteq> CHR 0x22)) lines\<rparr>)"
    by blast
  have "str_join (CHR 0x0A) [''\"solar\" power'', ''wind'', ''''] = actor_input ?m"
    by simp
  with j have "str_join (CHR 0x0A) lines = str_join (CHR 0x0A) [''\"solar\" power'', ''wind'', '''']"
    by simp
  from str_join_unique [OF this ne _ n] have "lines = [''\"solar\" power'', ''wind'', '''']"
    by simp
  with c show ?thesis by simp
qed

end
